theory Spec2Isabelle
  imports Main
begin

section \<open>Observable effects of the renderer components\<close>

text \<open>
  The components of \<^verbatim>\<open>OnboardingWizard.tsx\<close> talk to three collaborators: the
  logging call \<^verbatim>\<open>accomplish.logEvent\<close>, the completion callback \<^verbatim>\<open>onComplete\<close>
  and the router's \<^verbatim>\<open>navigate\<close>. Every call made to one of them is recorded, in
  order, in a trace; a handler takes the trace so far and returns the extended one.
\<close>

record log_payload =
  level :: string
  message :: string

datatype effect =
    LogEvent log_payload
  | OnComplete
  | Navigate string

section \<open>ConversationListItem\<close>

text \<open>
  Modelled from the spec: the type \<^verbatim>\<open>Task\<close> is imported from
  \<^verbatim>\<open>@accomplish/shared\<close> and is not among the sources. The component reads the
  three fields \<^verbatim>\<open>id\<close>, \<^verbatim>\<open>prompt\<close> and \<^verbatim>\<open>status\<close>; the spec gives them as an
  identifier, a prompt text and a status, all strings at run time. The field
  \<^verbatim>\<open>id\<close> is called \<open>task_id\<close> here, since \<open>id\<close> is the identity function of HOL.
\<close>

record Task =
  task_id :: string
  prompt :: string
  status :: string

text \<open>The value of \<^verbatim>\<open>useLocation()\<close>; the component reads \<^verbatim>\<open>pathname\<close> only.\<close>

record location =
  pathname :: string

text \<open>
  The elements the row can contain. An icon carries its \<^verbatim>\<open>className\<close>, the span
  its \<^verbatim>\<open>className\<close> and its text.
\<close>

datatype element =
    Loader2 string
  | CheckCircle2 string
  | Span string string

text \<open>
  An argument of \<^verbatim>\<open>cn(...)\<close>: a class string, or the value \<^verbatim>\<open>false\<close> that
  \<^verbatim>\<open>isActive && '...'\<close> yields when the row is not active. The function
  \<^verbatim>\<open>cn\<close> itself comes from \<^verbatim>\<open>@/lib/utils\<close>, which is not among the sources, so
  the row keeps the argument list as it is passed.
\<close>

datatype class_value = Cls string | Falsy

text \<open>
  The rendered \<^verbatim>\<open><button>\<close>: its click handler, the arguments of \<^verbatim>\<open>cn\<close> and its
  children in order. A child that is \<^verbatim>\<open>null\<close> (here \<open>None\<close>) renders nothing.
\<close>

record button =
  onClick :: "effect list \<Rightarrow> effect list"
  className :: "class_value list"
  children :: "element option list"

text \<open>The template literal \<^verbatim>\<open>`/execution/${task.id}`\<close>.\<close>

definition executionPath :: "Task \<Rightarrow> string" where
  "executionPath task = ''/execution/'' @ task_id task"

definition isActive :: "location \<Rightarrow> Task \<Rightarrow> bool" where
  "isActive loc task = (pathname loc = executionPath task)"

definition handleClick :: "Task \<Rightarrow> effect list \<Rightarrow> effect list" where
  "handleClick task tr = tr @ [Navigate (executionPath task)]"

definition getStatusIcon :: "Task \<Rightarrow> element option" where
  "getStatusIcon task =
     (if status task = ''running'' then
        Some (Loader2 ''h-3 w-3 animate-spin text-primary shrink-0'')
      else if status task = ''completed'' then
        Some (CheckCircle2 ''h-3 w-3 text-primary shrink-0'')
      else None)"

definition ConversationListItem :: "location \<Rightarrow> Task \<Rightarrow> button" where
  "ConversationListItem loc task =
     \<lparr> onClick = handleClick task,
       className =
         [ Cls ''w-full text-left px-3 py-2 rounded-md text-sm transition-colors duration-200'',
           Cls ''text-zinc-700 hover:bg-accent hover:text-accent-foreground'',
           Cls ''flex items-center gap-2'',
           (if isActive loc task then Cls ''bg-accent text-accent-foreground'' else Falsy) ],
       children = [ getStatusIcon task, Some (Span ''block truncate flex-1'' (prompt task)) ] \<rparr>"

subsection \<open>Reading a rendered row\<close>

text \<open>The children that reach the document: the \<^verbatim>\<open>null\<close> ones are dropped.\<close>

definition rendered :: "button \<Rightarrow> element list" where
  "rendered b = List.map_filter (\<lambda>c. c) (children b)"

fun isSpinner :: "element \<Rightarrow> bool" where
  "isSpinner (Loader2 c) = True"
| "isSpinner (CheckCircle2 c) = False"
| "isSpinner (Span c t) = False"

fun isCheck :: "element \<Rightarrow> bool" where
  "isCheck (Loader2 c) = False"
| "isCheck (CheckCircle2 c) = True"
| "isCheck (Span c t) = False"

definition spinners :: "button \<Rightarrow> nat" where
  "spinners b = length (filter isSpinner (rendered b))"

definition checks :: "button \<Rightarrow> nat" where
  "checks b = length (filter isCheck (rendered b))"

text \<open>
  The row is in the active visual state when \<^verbatim>\<open>cn\<close> receives the classes of the
  fourth argument, \<^verbatim>\<open>'bg-accent text-accent-foreground'\<close>.
\<close>

definition activeState :: "button \<Rightarrow> bool" where
  "activeState b = (Cls ''bg-accent text-accent-foreground'' \<in> set (className b))"

text \<open>A sequence of renders of the same row, one for each location in turn.\<close>

definition renders :: "Task \<Rightarrow> location list \<Rightarrow> button list" where
  "renders task locs = map (\<lambda>loc. ConversationListItem loc task) locs"

section \<open>OnboardingWizard\<close>

text \<open>
  The object \<^verbatim>\<open>accomplish\<close> comes from \<^verbatim>\<open>getAccomplish()\<close> in
  \<^verbatim>\<open>../../lib/accomplish\<close>, which is not among the sources, so it is a parameter
  of the model. Its method \<^verbatim>\<open>logEvent\<close> is called with a payload and its result is
  never used. What the call does is one of three things: it returns a promise that
  later resolves, it returns a promise that later rejects, or it throws before it
  returns. The outcome may depend on the payload and on everything that happened
  before, the trace so far.
\<close>

datatype call_result = Resolves | Rejects | Throws

record accomplish =
  logEvent :: "effect list \<Rightarrow> log_payload \<Rightarrow> call_result"

text \<open>How a handler or an effect ends: it returns, or an exception leaves it.\<close>

datatype completion = Returned | Raised

text \<open>
  The body of the \<^verbatim>\<open>useEffect\<close> (lines 27 to 32), which React runs once when the
  component mounts; its dependency array holds \<^verbatim>\<open>accomplish\<close> alone, so a later
  render runs it again only if \<^verbatim>\<open>getAccomplish()\<close> hands out another object. The
  call is recorded whatever its outcome; the promise is dropped; an exception of
  the call leaves the effect.
\<close>

definition startedPayload :: log_payload where
  "startedPayload = \<lparr> level = ''info'', message = ''Onboarding wizard started'' \<rparr>"

definition completedPayload :: log_payload where
  "completedPayload = \<lparr> level = ''info'', message = ''Onboarding completed'' \<rparr>"

definition mount :: "accomplish \<Rightarrow> effect list \<Rightarrow> completion \<times> effect list" where
  "mount acc tr =
     (case logEvent acc tr startedPayload of
        Throws \<Rightarrow> (Raised, tr @ [LogEvent startedPayload])
      | _ \<Rightarrow> (Returned, tr @ [LogEvent startedPayload]))"

text \<open>
  The props of the wizard (lines 20 to 22): the callback \<^verbatim>\<open>onComplete\<close>, which is
  the caller's code. A call of it returns or throws; which of the two may depend
  on everything that happened before the call.
\<close>

record OnboardingWizardProps =
  onComplete :: "effect list \<Rightarrow> completion"

text \<open>
  \<^verbatim>\<open>handleGetStarted\<close> (lines 34 to 40): the log call, then the callback. There is
  no \<^verbatim>\<open>await\<close>, no \<^verbatim>\<open>.catch\<close> and no \<^verbatim>\<open>try\<close>: a promise, resolved or
  rejected, is dropped and the next statement runs; an exception thrown by the
  log call leaves the handler before \<^verbatim>\<open>onComplete()\<close> is reached. The callback
  is the last statement, so the handler ends as the callback ends: it returns
  when the callback returns, and an exception of the callback leaves the handler.
\<close>

definition handleGetStarted ::
  "accomplish \<Rightarrow> OnboardingWizardProps \<Rightarrow> effect list \<Rightarrow> completion \<times> effect list" where
  "handleGetStarted acc props tr =
     (case logEvent acc tr completedPayload of
        Throws \<Rightarrow> (Raised, tr @ [LogEvent completedPayload])
      | _ \<Rightarrow> (onComplete props (tr @ [LogEvent completedPayload]),
              tr @ [LogEvent completedPayload] @ [OnComplete]))"

text \<open>
  What the wizard renders, as far as it is not fixed text: the primary button
  with its label and its click handler (line 114).
\<close>

record wizard =
  buttonLabel :: string
  buttonOnClick :: "effect list \<Rightarrow> completion \<times> effect list"

definition OnboardingWizard :: "accomplish \<Rightarrow> OnboardingWizardProps \<Rightarrow> wizard" where
  "OnboardingWizard acc props =
     \<lparr> buttonLabel = ''Get Started'', buttonOnClick = handleGetStarted acc props \<rparr>"

text \<open>
  \<open>n\<close> clicks of the button, one after the other, as \<^verbatim>\<open>fireEvent.click\<close> does in
  the test of the completion flow. Each click runs the button's handler on the
  trace the previous one left; an exception in one click does not prevent the
  next.
\<close>

fun clicks ::
  "accomplish \<Rightarrow> OnboardingWizardProps \<Rightarrow> nat \<Rightarrow> effect list \<Rightarrow> effect list" where
  "clicks acc props 0 tr = tr"
| "clicks acc props (Suc n) tr =
     clicks acc props n (snd (buttonOnClick (OnboardingWizard acc props) tr))"

text \<open>
  The mocks of the test file: \<^verbatim>\<open>mockLogEvent.mockResolvedValue(undefined)\<close> for
  the log call and \<^verbatim>\<open>vi.fn()\<close> for the callback, which returns.
\<close>

definition mockAccomplish :: accomplish where
  "mockAccomplish = \<lparr> logEvent = (\<lambda>tr p. Resolves) \<rparr>"

definition defaultProps :: OnboardingWizardProps where
  "defaultProps = \<lparr> onComplete = (\<lambda>tr. Returned) \<rparr>"




subsection \<open>Reading a trace\<close>

fun isLog :: "string \<Rightarrow> effect \<Rightarrow> bool" where
  "isLog m (LogEvent p) = (message p = m)"
| "isLog m OnComplete = False"
| "isLog m (Navigate path) = False"

definition logCount :: "string \<Rightarrow> effect list \<Rightarrow> nat" where
  "logCount m tr = length (filter (isLog m) tr)"

definition callbackCount :: "effect list \<Rightarrow> nat" where
  "callbackCount tr = length (filter (\<lambda>e. e = OnComplete) tr)"

subsection \<open>Feature cards\<close>

text \<open>
  The union type \<^verbatim>\<open>FeatureTone\<close> (line 18) and the string each member is at run
  time, which is the key looked up in the object \<^verbatim>\<open>toneStyles\<close>.
\<close>

datatype FeatureTone = Blue | Teal | Purple | Green

fun toneKey :: "FeatureTone \<Rightarrow> string" where
  "toneKey Blue = ''blue''"
| "toneKey Teal = ''teal''"
| "toneKey Purple = ''purple''"
| "toneKey Green = ''green''"

text \<open>The object literal of lines 136 to 141, as its list of properties.\<close>

definition toneStyles :: "(string \<times> string) list" where
  "toneStyles =
     [ (''blue'', ''bg-blue-500/10 text-blue-600''),
       (''teal'', ''bg-teal-500/10 text-teal-600''),
       (''purple'', ''bg-purple-500/10 text-purple-600''),
       (''green'', ''bg-green-500/10 text-green-600'') ]"

text \<open>
  The property read \<^verbatim>\<open>toneStyles[tone]\<close>: the value of the property, or
  \<^verbatim>\<open>undefined\<close> (here \<open>None\<close>) when the object has no such key.
\<close>

definition toneStyle :: "FeatureTone \<Rightarrow> string option" where
  "toneStyle tone = map_of toneStyles (toneKey tone)"

record FeatureCardProps =
  icon :: string
  title :: string
  description :: string
  tone :: FeatureTone

text \<open>
  The rendered panel: the arguments of \<^verbatim>\<open>cn\<close> for the icon box, the icon, the
  heading and the paragraph. An \<^verbatim>\<open>undefined\<close> style would reach \<^verbatim>\<open>cn\<close> as a
  falsy argument.
\<close>

record panel =
  iconBoxClass :: "class_value list"
  panelIcon :: string
  panelTitle :: string
  panelDescription :: string

definition FeatureCard :: "FeatureCardProps \<Rightarrow> panel" where
  "FeatureCard props =
     \<lparr> iconBoxClass =
         [ Cls ''mb-3 flex h-10 w-10 items-center justify-center rounded-lg'',
           (case toneStyle (tone props) of Some s \<Rightarrow> Cls s | None \<Rightarrow> Falsy) ],
       panelIcon = icon props,
       panelTitle = title props,
       panelDescription = description props \<rparr>"

text \<open>The four cards the wizard renders (lines 84 to 107), in order.\<close>

definition featureCards :: "panel list" where
  "featureCards =
     [ FeatureCard \<lparr> icon = ''Code'', title = ''Code Generation'',
         description = ''Generate and modify code with natural language instructions'',
         tone = Blue \<rparr>,
       FeatureCard \<lparr> icon = ''Globe'', title = ''Browser Automation'',
         description = ''Automate browser tasks with Dev Browser'',
         tone = Teal \<rparr>,
       FeatureCard \<lparr> icon = ''CheckCircle2'', title = ''Task Management'',
         description = ''Track and manage your AI-assisted workflows'',
         tone = Purple \<rparr>,
       FeatureCard \<lparr> icon = ''Lock'', title = ''Secure & Local'',
         description = ''Your data stays on your machine'',
         tone = Green \<rparr> ]"

text \<open>
  A trace in which no callback comes unannounced: every \<open>OnComplete\<close> stands
  directly after a log event with the message \<^verbatim>\<open>Onboarding completed\<close>.
\<close>

fun callbacksLogged :: "effect list \<Rightarrow> bool" where
  "callbacksLogged [] = True"
| "callbacksLogged (LogEvent p # OnComplete # tr) =
     (message p = ''Onboarding completed'' \<and> callbacksLogged tr)"
| "callbacksLogged (OnComplete # tr) = False"
| "callbacksLogged (e # tr) = callbacksLogged tr"

section \<open>Properties of ConversationListItem\<close>

lemma rendered_ConversationListItem:
  "rendered (ConversationListItem loc task) =
     (case getStatusIcon task of
        None \<Rightarrow> [Span ''block truncate flex-1'' (prompt task)]
      | Some i \<Rightarrow> [i, Span ''block truncate flex-1'' (prompt task)])"
  by (simp add: rendered_def ConversationListItem_def List.map_filter_simps
      split: option.split)

text \<open>
  C1. The status icon of a row is a total function of the task's status: for
  \<^verbatim>\<open>'running'\<close> the row shows exactly one spinning indicator and no check, for
  \<^verbatim>\<open>'completed'\<close> exactly one check and no spinning indicator, and for every
  other status string no icon at all: the span is then the only child rendered.
  No status makes the mapping fail; it has no failing branch.
\<close>

theorem statusIcon_total:
  "(status task = ''running'' \<longrightarrow>
      spinners (ConversationListItem loc task) = 1 \<and>
      checks (ConversationListItem loc task) = 0) \<and>
   (status task = ''completed'' \<longrightarrow>
      spinners (ConversationListItem loc task) = 0 \<and>
      checks (ConversationListItem loc task) = 1) \<and>
   (status task \<noteq> ''running'' \<and> status task \<noteq> ''completed'' \<longrightarrow>
      getStatusIcon task = None \<and>
      rendered (ConversationListItem loc task) = [Span ''block truncate flex-1'' (prompt task)])"
  by (simp add: spinners_def checks_def rendered_ConversationListItem getStatusIcon_def)

theorem statusIcon_total_witness:
  "spinners (ConversationListItem \<lparr>pathname = ''/''\<rparr>
      \<lparr>task_id = ''t1'', prompt = ''p'', status = ''running''\<rparr>) = 1 \<and>
   checks (ConversationListItem \<lparr>pathname = ''/''\<rparr>
      \<lparr>task_id = ''t1'', prompt = ''p'', status = ''running''\<rparr>) = 0 \<and>
   spinners (ConversationListItem \<lparr>pathname = ''/''\<rparr>
      \<lparr>task_id = ''t2'', prompt = ''p'', status = ''completed''\<rparr>) = 0 \<and>
   checks (ConversationListItem \<lparr>pathname = ''/''\<rparr>
      \<lparr>task_id = ''t2'', prompt = ''p'', status = ''completed''\<rparr>) = 1 \<and>
   rendered (ConversationListItem \<lparr>pathname = ''/''\<rparr>
      \<lparr>task_id = ''t3'', prompt = ''p'', status = ''queued''\<rparr>) = [Span ''block truncate flex-1'' ''p'']"
  using
    statusIcon_total [of "\<lparr>task_id = ''t1'', prompt = ''p'', status = ''running''\<rparr>" "\<lparr>pathname = ''/''\<rparr>"]
    statusIcon_total [of "\<lparr>task_id = ''t2'', prompt = ''p'', status = ''completed''\<rparr>" "\<lparr>pathname = ''/''\<rparr>"]
    statusIcon_total [of "\<lparr>task_id = ''t3'', prompt = ''p'', status = ''queued''\<rparr>" "\<lparr>pathname = ''/''\<rparr>"]
  by simp

text \<open>
  C2. For every task and every location, the row is in the active visual state
  exactly when the location's pathname equals \<^verbatim>\<open>/execution/\<close> followed by the
  task's id. Nothing is cached: in any sequence of renders, each row's state is
  the comparison at that render's own location.
\<close>

theorem active_iff_location:
  "activeState (ConversationListItem loc task) = (pathname loc = ''/execution/'' @ task_id task) \<and>
   map activeState (renders task locs) =
     map (\<lambda>l. pathname l = ''/execution/'' @ task_id task) locs"
  by (simp add: activeState_def renders_def ConversationListItem_def isActive_def
      executionPath_def)

theorem active_iff_location_witness:
  "activeState (ConversationListItem \<lparr>pathname = ''/execution/t1''\<rparr>
      \<lparr>task_id = ''t1'', prompt = ''p'', status = ''running''\<rparr>) \<and>
   map activeState (renders \<lparr>task_id = ''t1'', prompt = ''p'', status = ''running''\<rparr>
      [\<lparr>pathname = ''/execution/t1''\<rparr>, \<lparr>pathname = ''/''\<rparr>, \<lparr>pathname = ''/execution/t1''\<rparr>])
     = [True, False, True]"
  using active_iff_location
    [of "\<lparr>pathname = ''/execution/t1''\<rparr>" "\<lparr>task_id = ''t1'', prompt = ''p'', status = ''running''\<rparr>"
        "[\<lparr>pathname = ''/execution/t1''\<rparr>, \<lparr>pathname = ''/''\<rparr>, \<lparr>pathname = ''/execution/t1''\<rparr>]"]
  by simp

text \<open>
  C3. For every task and every location at which the row was rendered, active or
  not, a click on the row calls \<^verbatim>\<open>navigate\<close> exactly once, with the path
  \<^verbatim>\<open>/execution/\<close> followed by the task's id, and does nothing else; \<open>n\<close> clicks
  make \<open>n\<close> such calls.
\<close>

theorem click_navigates_once:
  "onClick (ConversationListItem loc task) tr = tr @ [Navigate (''/execution/'' @ task_id task)] \<and>
   (onClick (ConversationListItem loc task) ^^ n) tr =
     tr @ replicate n (Navigate (''/execution/'' @ task_id task))"
proof -
  have one: "onClick (ConversationListItem loc task) =
      (\<lambda>t. t @ [Navigate (''/execution/'' @ task_id task)])"
    by (simp add: ConversationListItem_def handleClick_def executionPath_def fun_eq_iff)
  have many: "((\<lambda>t. t @ [e]) ^^ k) t0 = t0 @ replicate k e" for e :: effect and k t0
    by (induction k arbitrary: t0) (simp_all add: replicate_append_same)
  show ?thesis
    unfolding one by (simp add: many)
qed

theorem click_navigates_once_witness:
  "onClick (ConversationListItem \<lparr>pathname = ''/execution/t1''\<rparr>
      \<lparr>task_id = ''t1'', prompt = ''p'', status = ''running''\<rparr>) [] = [Navigate ''/execution/t1''] \<and>
   (onClick (ConversationListItem \<lparr>pathname = ''/execution/t1''\<rparr>
      \<lparr>task_id = ''t1'', prompt = ''p'', status = ''running''\<rparr>) ^^ 2) [] =
     [Navigate ''/execution/t1'', Navigate ''/execution/t1'']"
proof -
  have twice: "replicate 2 e = [e, e]" for e :: effect
    by (simp add: numeral_2_eq_2)
  show ?thesis
    using click_navigates_once
      [of "\<lparr>pathname = ''/execution/t1''\<rparr>"
          "\<lparr>task_id = ''t1'', prompt = ''p'', status = ''running''\<rparr>" "[]" 2]
    unfolding twice by simp
qed

section \<open>Properties of OnboardingWizard\<close>

lemma buttonOnClick_OnboardingWizard:
  "buttonOnClick (OnboardingWizard acc props) = handleGetStarted acc props"
  by (simp add: OnboardingWizard_def)

lemma handleGetStarted_trace:
  "snd (handleGetStarted acc props tr) =
     tr @ LogEvent completedPayload #
       (if logEvent acc tr completedPayload = Throws then [] else [OnComplete])"
  by (simp add: handleGetStarted_def split: call_result.split)













text \<open>
  C7. Mounting the wizard makes exactly one call: \<^verbatim>\<open>logEvent\<close> with the level
  \<^verbatim>\<open>info\<close> and the message \<^verbatim>\<open>Onboarding wizard started\<close>. This holds for every
  prior trace and every collaborator, and the trace gets no other entry: no
  callback, no navigation, no second log event.
\<close>

theorem mount_logs_started_once:
  "snd (mount acc tr) =
     tr @ [LogEvent \<lparr> level = ''info'', message = ''Onboarding wizard started'' \<rparr>] \<and>
   logCount ''Onboarding wizard started'' (snd (mount acc tr)) =
     logCount ''Onboarding wizard started'' tr + 1 \<and>
   callbackCount (snd (mount acc tr)) = callbackCount tr"
  by (simp add: mount_def startedPayload_def logCount_def callbackCount_def
      split: call_result.split)

theorem mount_logs_started_once_witness:
  "snd (mount mockAccomplish []) =
     [LogEvent \<lparr> level = ''info'', message = ''Onboarding wizard started'' \<rparr>]"
  using mount_logs_started_once [of mockAccomplish "[]"]
  by simp




lemma callbacksLogged_snoc_log:
  "callbacksLogged tr \<Longrightarrow> callbacksLogged (tr @ [LogEvent p])"
  by (induction tr rule: callbacksLogged.induct) simp_all

lemma callbacksLogged_snoc_click:
  "callbacksLogged tr \<Longrightarrow> callbacksLogged (tr @ [LogEvent completedPayload, OnComplete])"
  by (induction tr rule: callbacksLogged.induct) (simp_all add: completedPayload_def)

lemma callbacksLogged_click:
  "callbacksLogged tr \<Longrightarrow> callbacksLogged (snd (handleGetStarted acc props tr))"
  by (simp add: handleGetStarted_trace callbacksLogged_snoc_log callbacksLogged_snoc_click)

lemma callbacksLogged_clicks:
  "callbacksLogged tr \<Longrightarrow> callbacksLogged (clicks acc props n tr)"
  by (induction n arbitrary: tr) (simp_all add: buttonOnClick_OnboardingWizard callbacksLogged_click)

text \<open>
  C9. On every click, whatever the log call and the callback do and whatever
  happened before, the first thing the handler adds to the trace is the log event
  \<^verbatim>\<open>Onboarding completed\<close>; the callback, when it is invoked, comes directly
  after it. So after any number of clicks on a fresh wizard every callback in the
  trace stands directly after such a log event.
\<close>

theorem log_before_callback:
  "(snd (handleGetStarted acc props tr) = tr @ [LogEvent completedPayload] \<or>
    snd (handleGetStarted acc props tr) = tr @ [LogEvent completedPayload, OnComplete]) \<and>
   callbacksLogged (clicks acc props n (snd (mount acc [])))"
proof -
  have "callbacksLogged (snd (mount acc []))"
    by (simp add: mount_def split: call_result.split)
  then have "callbacksLogged (clicks acc props n (snd (mount acc [])))"
    by (rule callbacksLogged_clicks)
  then show ?thesis
    by (simp add: handleGetStarted_trace)
qed

theorem log_before_callback_witness:
  "snd (handleGetStarted mockAccomplish defaultProps []) =
     [LogEvent completedPayload, OnComplete] \<and>
   callbacksLogged (clicks mockAccomplish defaultProps 2 (snd (mount mockAccomplish [])))"
  using log_before_callback [of mockAccomplish defaultProps "[]" 2]
  by (simp add: handleGetStarted_def mockAccomplish_def)

lemma toneStyle_value:
  "toneStyle t = Some (''bg-'' @ toneKey t @ ''-500/10 text-'' @ toneKey t @ ''-600'')"
  by (cases t) (simp_all add: toneStyle_def toneStyles_def)

lemma toneStyles_keys: "fst ` set toneStyles = range toneKey"
proof -
  have "range toneKey = toneKey ` {Blue, Teal, Purple, Green}"
    by (rule arg_cong [where f = "image toneKey"]) (auto intro: FeatureTone.exhaust)
  then show ?thesis by (simp add: toneStyles_def)
qed

text \<open>
  C10. The table \<^verbatim>\<open>toneStyles\<close> has an entry for every member of
  \<^verbatim>\<open>FeatureTone\<close>, and its keys are exactly the four members: for every tone
  the read \<^verbatim>\<open>toneStyles[tone]\<close> yields a style string, never \<^verbatim>\<open>undefined\<close>, so
  the icon box of every feature card gets its style.
\<close>

theorem toneStyles_total:
  "(\<exists>s. toneStyle t = Some s) \<and>
   fst ` set toneStyles = range toneKey \<and>
   Falsy \<notin> set (iconBoxClass (FeatureCard props))"
  by (simp add: toneStyle_value toneStyles_keys FeatureCard_def)

theorem toneStyles_total_witness:
  "toneStyle Purple = Some ''bg-purple-500/10 text-purple-600'' \<and>
   map iconBoxClass featureCards =
     map (\<lambda>s. [Cls ''mb-3 flex h-10 w-10 items-center justify-center rounded-lg'', Cls s])
       [''bg-blue-500/10 text-blue-600'', ''bg-teal-500/10 text-teal-600'',
        ''bg-purple-500/10 text-purple-600'', ''bg-green-500/10 text-green-600'']"
  using toneStyles_total [of Purple]
  by (simp add: toneStyle_def toneStyles_def featureCards_def FeatureCard_def)

end
